theory Spec2Isabelle
  imports Complex_Main
begin

section \<open>Polling scheduler of cpppo (server/enip/poll.py)\<close>

text \<open>
  The module polls a list of parameters from a device through a proxy object \<open>via\<close>:
  \<open>execute\<close> performs one read, \<open>loop\<close> wraps one read with the cadence
  bookkeeping, and \<open>run\<close> repeats \<open>loop\<close> with exponential back-off.

  Conventions of the embedding:
  \<^item> the numbers of the module are Python's floats and ints. Their type \<open>'t\<close> and
    their operations are a parameter of every definition (the record \<open>arith\<close>), so
    that each definition applies the operations the code applies, in its order, and
    says nothing of what an operation rounds to;
  \<^item> an argument that may be \<open>None\<close> is an \<open>option\<close>;
  \<^item> every effect on the outside (the clock, the device, the callbacks) acts on a
    world of an arbitrary type \<open>'w\<close>, passed through explicitly;
  \<^item> an exception is a value of type \<open>exc\<close>; the type stands for the instances of
    Python's \<open>Exception\<close>, which is what the handler in \<open>run\<close> catches;
  \<^item> a generator is a finite lazy sequence that ends normally or by raising.
\<close>

subsection \<open>Data\<close>

datatype exc = TypeError | ValueError | Failure string

datatype param = Name string | CIP string string

datatype 'a gen = Stop | Yield 'a "'a gen" | Throw exc

text \<open>
  Python's numbers: the literals the module writes (\<open>0\<close>, \<open>1\<close>, \<open>10\<close>, \<open>1.0\<close>,
  \<open>1.5\<close>, \<open>.5\<close>), the operations \<open>+\<close>, \<open>-\<close>, \<open>*\<close>, \<open>//\<close>, \<open>/\<close> and \<open><\<close>, and
  the truth value of a number.
\<close>

record 't arith =
  int_0 :: 't
  int_1 :: 't
  int_10 :: 't
  float_1 :: 't
  float_1_5 :: 't
  float_0_5 :: 't
  num_add :: "'t \<Rightarrow> 't \<Rightarrow> 't"
  num_sub :: "'t \<Rightarrow> 't \<Rightarrow> 't"
  num_mul :: "'t \<Rightarrow> 't \<Rightarrow> 't"
  num_floordiv :: "'t \<Rightarrow> 't \<Rightarrow> 't"
  num_truediv :: "'t \<Rightarrow> 't \<Rightarrow> 't"
  num_lt :: "'t \<Rightarrow> 't \<Rightarrow> bool"
  num_bool :: "'t \<Rightarrow> bool"

text \<open>
  The built-in \<open>max\<close> and \<open>min\<close> of two arguments keep the first unless the
  second is greater, respectively less.
\<close>

definition py_max :: "'t arith \<Rightarrow> 't \<Rightarrow> 't \<Rightarrow> 't" where
  "py_max n a b = (if num_lt n a b then b else a)"

definition py_min :: "'t arith \<Rightarrow> 't \<Rightarrow> 't \<Rightarrow> 't" where
  "py_min n a b = (if num_lt n b a then b else a)"

datatype level = Info | Normal | Detail

datatype 't message =
    Premature 't 't
  | Missed 't 't 't
  | Started 't 't
  | Finished 't 't 't "'t option"
  | PollingFailure 't exc
  | PollingBackoff 't exc

type_synonym 't log_entry = "level \<times> 't message"

text \<open>
  The module's clock \<open>timer\<close> and \<open>time.sleep\<close>; the latter may raise (it does for
  a negative duration).
\<close>

record ('t, 'w) sys =
  timer :: "'w \<Rightarrow> 't \<times> 'w"
  sleep :: "'t \<Rightarrow> 'w \<Rightarrow> exc option \<times> 'w"

text \<open>
  The proxy \<open>via\<close>: its \<open>parameter_substitution\<close> may raise, its \<open>read\<close>
  gives the generator of the polled values, and leaving \<open>with via:\<close> by an exception
  closes its gateway.
\<close>

record ('w, 'a, 'v) via =
  parameter_substitution :: "param list \<Rightarrow> bool option \<Rightarrow> 'w \<Rightarrow> exc + 'a"
  read :: "'a \<Rightarrow> 'w \<Rightarrow> 'v gen \<times> 'w"
  close_gateway :: "'w \<Rightarrow> 'w"

subsection \<open>execute\<close>

definition PARAMS :: "param list" where
  "PARAMS = [Name ''Output Current'', Name ''Motor Velocity'']"

text \<open>\<open>params or PARAMS\<close>: \<open>None\<close> and the empty sequence are both false.\<close>

fun or_PARAMS :: "param list option \<Rightarrow> param list" where
  "or_PARAMS None = PARAMS"
| "or_PARAMS (Some []) = PARAMS"
| "or_PARAMS (Some ps) = ps"

text \<open>
  The lazy \<open>zip\<close>: it asks the parameters first and stops, without an error, as soon
  as either side is exhausted; an exception of the reader passes through.
\<close>

fun zip_lazy :: "'p list \<Rightarrow> 'v gen \<Rightarrow> ('p \<times> 'v) gen" where
  "zip_lazy [] r = Stop"
| "zip_lazy (p # ps) Stop = Stop"
| "zip_lazy (p # ps) (Throw e) = Throw e"
| "zip_lazy (p # ps) (Yield v r) = Yield (p, v) (zip_lazy ps r)"

definition execute ::
  "('w, 'a, 'v) via \<Rightarrow> param list option \<Rightarrow> bool option \<Rightarrow> 'w \<Rightarrow> (param \<times> 'v) gen \<times> 'w"
where
  "execute v params pass_thru w =
     (case parameter_substitution v (or_PARAMS params) pass_thru w of
        Inl e \<Rightarrow> (Throw e, w)
      | Inr addresses \<Rightarrow>
          (case read v addresses w of
             (reader, w') \<Rightarrow> (zip_lazy (or_PARAMS params) reader, w')))"

text \<open>\<open>list( executor )\<close>: all the items, or the exception that ended the generator.\<close>

fun list_of :: "'a gen \<Rightarrow> exc + 'a list" where
  "list_of Stop = Inr []"
| "list_of (Throw e) = Inl e"
| "list_of (Yield x g) = (case list_of g of Inl e \<Rightarrow> Inl e | Inr xs \<Rightarrow> Inr (x # xs))"

subsection \<open>loop\<close>

text \<open>
  One call of \<open>loop\<close>, from the world \<open>w\<close>: the exception or the triple
  \<open>(last_poll, delay, results)\<close>, the log entries written, and the world left behind.
\<close>

definition loop ::
  "'t arith \<Rightarrow> ('t, 'w) sys \<Rightarrow> ('w, 'a, 'v) via \<Rightarrow> 't option \<Rightarrow> 't option
     \<Rightarrow> param list option \<Rightarrow> bool option
     \<Rightarrow> 'w \<Rightarrow> (exc + 't \<times> 't \<times> (param \<times> 'v) list) \<times> 't log_entry list \<times> 'w"
where
  "loop n s v cycle last_poll params pass_thru w =
     (let cycle = (case cycle of None \<Rightarrow> float_1 n
                   | Some c \<Rightarrow> if num_bool n c then c else float_1 n);
          (init_poll, w1) = timer s w
      in case last_poll of
           None \<Rightarrow> (Inl TypeError, [], w1)
         | Some last_poll0 \<Rightarrow>
             let dt = num_sub n init_poll last_poll0;
                 (last_poll, log1) =
                   (if num_lt n dt cycle then (last_poll0, [(Info, Premature dt cycle)])
                    else
                      let missed = num_floordiv n dt cycle in
                      if num_bool n last_poll0 then
                        (num_add n last_poll0 (num_mul n cycle missed),
                         if num_lt n (int_1 n) missed
                         then [(Normal, Missed missed (num_sub n dt cycle) cycle)] else [])
                      else (init_poll, []));
                 log2 = log1 @ [(Info, Started (num_sub n init_poll last_poll) cycle)];
                 (executor, w2) = execute v params pass_thru w1
             in (case list_of executor of
                  Inl e \<Rightarrow> (Inl e, log2, close_gateway v w2)
                | Inr results \<Rightarrow>
                    let (done_poll, w3) = timer s w2;
                        duration = num_sub n done_poll init_poll;
                        log3 = log2 @
                          [(Info, Finished (num_sub n done_poll last_poll) cycle duration
                              (if num_bool n duration
                               then Some (num_truediv n (float_1 n) duration) else None))]
                    in (Inr (last_poll,
                             py_max n (int_0 n) (num_sub n (num_add n last_poll cycle) done_poll),
                             results), log3, w3)))"

subsection \<open>run\<close>

text \<open>
  The \<open>process\<close> object is called with each pair and may carry a \<open>done\<close>
  attribute (\<open>None\<close>: it has none); \<open>failure\<close> is the optional callback of a
  failed poll. Either callback may raise. The keyword arguments that \<open>run\<close> hands
  on to \<open>loop\<close> and \<open>execute\<close> are the record \<open>kwds\<close>; a missing key and
  the value \<open>None\<close> are the same to both.
\<close>

record ('w, 'v) process =
  call :: "param \<Rightarrow> 'v \<Rightarrow> 'w \<Rightarrow> exc option \<times> 'w"
  done_attr :: "'w \<Rightarrow> bool option"

type_synonym 'w failure = "(exc \<Rightarrow> 'w \<Rightarrow> exc option \<times> 'w) option"

record 't kwds =
  cycle :: "'t option"
  params :: "param list option"
  pass_thru :: "bool option"

record 't backoffs =
  backoff_min :: 't
  backoff_multiplier :: 't
  backoff_max :: 't
  latency :: 't

text \<open>The defaults at the head of \<open>run\<close>: each one replaces \<open>None\<close> only.\<close>

definition run_defaults ::
  "'t arith \<Rightarrow> 't option \<Rightarrow> 't option \<Rightarrow> 't option \<Rightarrow> 't option \<Rightarrow> 't kwds \<Rightarrow> 't backoffs"
where
  "run_defaults n bmin bmul bmax lat kw =
     (let bmin = (case bmin of
                    None \<Rightarrow> (case cycle kw of None \<Rightarrow> float_1 n | Some c \<Rightarrow> c)
                  | Some b \<Rightarrow> b);
          bmax = (case bmax of None \<Rightarrow> num_mul n bmin (int_10 n) | Some b \<Rightarrow> b);
          bmul = (case bmul of None \<Rightarrow> float_1_5 n | Some m \<Rightarrow> m);
          lat = (case lat of None \<Rightarrow> float_0_5 n | Some l \<Rightarrow> l)
      in \<lparr>backoff_min = bmin, backoff_multiplier = bmul, backoff_max = bmax, latency = lat\<rparr>)"

text \<open>The local variables of \<open>run\<close>, with the log written so far and the world.\<close>

record ('t, 'w) vars =
  backoff :: "'t option"
  lst :: 't
  dly :: 't
  beg :: 't
  logged :: "'t log_entry list"
  world :: 'w

text \<open>\<open>for p,v in res: process( p, v )\<close>, left at the first call that raises.\<close>

fun run_process :: "('w, 'v) process \<Rightarrow> (param \<times> 'v) list \<Rightarrow> 'w \<Rightarrow> exc option \<times> 'w" where
  "run_process pr [] w = (None, w)"
| "run_process pr ((p, x) # res) w =
     (case call pr p x w of
        (Some e, w') \<Rightarrow> (Some e, w')
      | (None, w') \<Rightarrow> run_process pr res w')"

text \<open>
  What one pass through the body of the \<open>while\<close> did: it slept and went on, it
  completed a poll, or it went through the exception handler.
\<close>

datatype pass = Waited | Polled | Failed exc

text \<open>
  The handler \<open>except Exception as exc\<close>. The second component of its result is the
  exception that the \<open>failure\<close> callback raised itself, if any: nothing catches it.
\<close>

definition run_except ::
  "'t arith \<Rightarrow> 'w failure \<Rightarrow> 't backoffs \<Rightarrow> exc \<Rightarrow> ('t, 'w) vars
     \<Rightarrow> pass \<times> exc option \<times> ('t, 'w) vars"
where
  "run_except n failure b e m =
     (let (bk, entry) =
            (case backoff m of
               None \<Rightarrow> (backoff_min b, (Normal, PollingFailure (backoff_min b) e))
             | Some cur \<Rightarrow>
                 (py_min n (num_mul n cur (backoff_multiplier b)) (backoff_max b),
                  (Detail,
                   PollingBackoff
                     (py_min n (num_mul n cur (backoff_multiplier b)) (backoff_max b)) e)));
          m' = m\<lparr>backoff := Some bk, dly := bk, logged := logged m @ [entry]\<rparr>
      in case failure of
           None \<Rightarrow> (Failed e, None, m')
         | Some f \<Rightarrow> (case f e (world m') of (r, w') \<Rightarrow> (Failed e, r, m'\<lparr>world := w'\<rparr>)))"

text \<open>
  One pass through the body of the \<open>while\<close>. The call of \<open>time.sleep\<close> stands
  outside the \<open>try\<close>: an exception it raises leaves \<open>run\<close>. After \<open>continue\<close>
  the variable \<open>beg\<close> keeps its value; otherwise it is read from the clock at the
  end.
\<close>

definition run_pass ::
  "'t arith \<Rightarrow> ('t, 'w) sys \<Rightarrow> ('w, 'a, 'v) via \<Rightarrow> ('w, 'v) process \<Rightarrow> 'w failure
     \<Rightarrow> 't backoffs \<Rightarrow> 't kwds \<Rightarrow> ('t, 'w) vars \<Rightarrow> pass \<times> exc option \<times> ('t, 'w) vars"
where
  "run_pass n s v pr failure b kw m =
     (case timer s (world m) of (now, w1) \<Rightarrow>
        let ela = num_sub n now (beg m) in
        if num_lt n ela (dly m) then
          (case sleep s (py_min n (latency b) (num_sub n (dly m) ela)) w1 of
             (r, w2) \<Rightarrow> (Waited, r, m\<lparr>world := w2\<rparr>))
        else
          (case (case loop n s v (cycle kw) (Some (lst m)) (params kw) (pass_thru kw) w1 of
                   (Inl e, lg, w2) \<Rightarrow>
                     run_except n failure b e (m\<lparr>logged := logged m @ lg, world := w2\<rparr>)
                 | (Inr (l, d, res), lg, w2) \<Rightarrow>
                     (case run_process pr res w2 of
                        (None, w3) \<Rightarrow>
                          (Polled, None,
                           m\<lparr>lst := l, dly := d, backoff := None,
                             logged := logged m @ lg, world := w3\<rparr>)
                      | (Some e, w3) \<Rightarrow>
                          run_except n failure b e
                            (m\<lparr>lst := l, dly := d, logged := logged m @ lg, world := w3\<rparr>)))
           of
             (p, Some e, m') \<Rightarrow> (p, Some e, m')
           | (p, None, m') \<Rightarrow>
               (case timer s (world m') of (t, w4) \<Rightarrow> (p, None, m'\<lparr>beg := t, world := w4\<rparr>))))"

text \<open>
  The \<open>while\<close> loop may run forever, so it takes fuel: the number of passes it may
  make. The result is the trace of the passes made, each with the variables it left,
  and how the loop ended; \<open>None\<close> says that it was still running when the fuel
  was used up.
\<close>

datatype ending = Returned | Raised exc

fun run_loop ::
  "nat \<Rightarrow> 't arith \<Rightarrow> ('t, 'w) sys \<Rightarrow> ('w, 'a, 'v) via \<Rightarrow> ('w, 'v) process \<Rightarrow> 'w failure
     \<Rightarrow> 't backoffs \<Rightarrow> 't kwds
     \<Rightarrow> ('t, 'w) vars \<Rightarrow> (pass \<times> ('t, 'w) vars) list \<times> ending option"
where
  "run_loop 0 n s v pr failure b kw m = ([], None)"
| "run_loop (Suc k) n s v pr failure b kw m =
     (if done_attr pr (world m) = Some True then ([], Some Returned)
      else
        (case run_pass n s v pr failure b kw m of
           (p, Some e, m') \<Rightarrow> ([(p, m')], Some (Raised e))
         | (p, None, m') \<Rightarrow>
             (case run_loop k n s v pr failure b kw m' of
                (tr, r) \<Rightarrow> ((p, m') # tr, r))))"

definition run ::
  "nat \<Rightarrow> 't arith \<Rightarrow> ('t, 'w) sys \<Rightarrow> ('w, 'a, 'v) via \<Rightarrow> ('w, 'v) process \<Rightarrow> 'w failure
     \<Rightarrow> 't option \<Rightarrow> 't option \<Rightarrow> 't option \<Rightarrow> 't option \<Rightarrow> 't kwds
     \<Rightarrow> 'w \<Rightarrow> (pass \<times> ('t, 'w) vars) list \<times> ending option"
where
  "run fuel n s v pr failure bmin bmul bmax lat kw w =
     (case timer s w of (t, w0) \<Rightarrow>
        run_loop fuel n s v pr failure (run_defaults n bmin bmul bmax lat kw) kw
          \<lparr>backoff = None, lst = int_0 n, dly = int_0 n, beg = t, logged = [], world = w0\<rparr>)"

subsection \<open>Observations used in the statements\<close>

text \<open>The counts reported by the "Missed polls" entries of a log.\<close>

fun missed_polls :: "'t log_entry list \<Rightarrow> 't list" where
  "missed_polls [] = []"
| "missed_polls ((lvl, Missed k x y) # es) = k # missed_polls es"
| "missed_polls (e # es) = missed_polls es"

text \<open>The values a generator yields, and the exception it ends with, if any.\<close>

fun yielded :: "'a gen \<Rightarrow> 'a list" where
  "yielded Stop = []"
| "yielded (Throw e) = []"
| "yielded (Yield x g) = x # yielded g"

fun raised :: "'a gen \<Rightarrow> exc option" where
  "raised Stop = None"
| "raised (Throw e) = Some e"
| "raised (Yield x g) = raised g"

text \<open>
  The back-off sequence in the words of the specification: the first failure waits
  \<open>backoff_min\<close>; each further consecutive failure waits the smaller of the
  previous delay times the multiplier and \<open>backoff_max\<close>.
\<close>

fun spec_backoff :: "'t arith \<Rightarrow> 't backoffs \<Rightarrow> nat \<Rightarrow> 't" where
  "spec_backoff n b 0 = backoff_min b"
| "spec_backoff n b (Suc k) =
     py_min n (num_mul n (spec_backoff n b k) (backoff_multiplier b)) (backoff_max b)"

text \<open>
  A trace follows the specification from \<open>k\<close> consecutive failures on: a pass that
  only waited changes nothing, a completed poll leaves the back-off inactive and
  starts the count again, and the failure after \<open>k\<close> consecutive ones leaves both
  the back-off and the pending delay at \<open>spec_backoff n b k\<close>.
\<close>

fun follows_backoff ::
  "'t arith \<Rightarrow> 't backoffs \<Rightarrow> nat \<Rightarrow> (pass \<times> ('t, 'w) vars) list \<Rightarrow> bool"
where
  "follows_backoff n b k [] = True"
| "follows_backoff n b k ((Waited, m) # tr) = follows_backoff n b k tr"
| "follows_backoff n b k ((Polled, m) # tr) = (backoff m = None \<and> follows_backoff n b 0 tr)"
| "follows_backoff n b k ((Failed e, m) # tr) =
     (backoff m = Some (spec_backoff n b k) \<and> dly m = spec_backoff n b k
      \<and> follows_backoff n b (Suc k) tr)"

text \<open>
  The variable \<open>backoff\<close> after \<open>k\<close> consecutive failures: inactive for none,
  and the \<open>k\<close>-th delay of the specification otherwise.
\<close>

definition tracks :: "'t arith \<Rightarrow> 't backoffs \<Rightarrow> nat \<Rightarrow> 't option \<Rightarrow> bool" where
  "tracks n b k bk =
     (case bk of None \<Rightarrow> k = 0 | Some x \<Rightarrow> 0 < k \<and> x = spec_backoff n b (k - 1))"


text \<open>The pass, the back-off and the pending delay at each entry of a trace.\<close>

definition trace_backoffs ::
  "(pass \<times> ('t, 'w) vars) list \<Rightarrow> (pass \<times> 't option \<times> 't) list"
where
  "trace_backoffs tr = map (\<lambda>(p, m). (p, backoff m, dly m)) tr"

subsection \<open>A scripted world for concrete runs\<close>

text \<open>
  The arithmetic of the concrete runs is exact, on rationals. The runs use small
  dyadic values only (whole numbers, halves and quarters), on which the operations
  of Python's floats are exact as well.
\<close>

definition exact :: "rat arith" where
  "exact =
     \<lparr>int_0 = 0, int_1 = 1, int_10 = 10, float_1 = 1, float_1_5 = 3 / 2, float_0_5 = 1 / 2,
      num_add = (+), num_sub = (-), num_mul = (*),
      num_floordiv = (\<lambda>a b. of_int \<lfloor>a / b\<rfloor>), num_truediv = (/),
      num_lt = (<), num_bool = (\<lambda>x. x \<noteq> 0)\<rparr>"

text \<open>
  The arithmetic of Python's floats on finite values of ordinary size: the exact
  result of each operation, rounded to 53 significant bits, to the nearest value and
  to the even one of two equally near. \<open>round53 (1 / 10)\<close> is the float that the
  literal \<open>0.1\<close> denotes. The floor division \<open>//\<close> gives the floor of the exact
  quotient. (Overflow, subnormal results, infinities and NaN are not in this
  instance; the definitions of the module do not depend on it.)
\<close>

fun normalise :: "nat \<Rightarrow> rat \<Rightarrow> int \<Rightarrow> rat \<times> int" where
  "normalise k m e =
     (if k = 0 then (m, e)
      else if m < 4503599627370496 then normalise (k - 1) (m * 2) (e - 1)
      else if 9007199254740992 \<le> m then normalise (k - 1) (m / 2) (e + 1)
      else (m, e))"

definition pow2 :: "int \<Rightarrow> rat" where
  "pow2 e = (if 0 \<le> e then 2 ^ nat e else 1 / 2 ^ nat (- e))"

definition round_even :: "rat \<Rightarrow> int" where
  "round_even m =
     (let f = \<lfloor>m\<rfloor>; d = m - of_int f
      in if d < 1 / 2 then f else if 1 / 2 < d then f + 1 else if even f then f else f + 1)"

definition round53 :: "rat \<Rightarrow> rat" where
  "round53 x =
     (if x = 0 then 0
      else case normalise 1100 (\<bar>x\<bar> * 4503599627370496) (- 52) of
             (m, e) \<Rightarrow> sgn x * of_int (round_even m) * pow2 e)"

definition double :: "rat arith" where
  "double =
     \<lparr>int_0 = 0, int_1 = 1, int_10 = 10, float_1 = 1, float_1_5 = 3 / 2, float_0_5 = 1 / 2,
      num_add = (\<lambda>a b. round53 (a + b)), num_sub = (\<lambda>a b. round53 (a - b)),
      num_mul = (\<lambda>a b. round53 (a * b)),
      num_floordiv = (\<lambda>a b. round53 (of_int \<lfloor>a / b\<rfloor>)),
      num_truediv = (\<lambda>a b. round53 (a / b)),
      num_lt = (<), num_bool = (\<lambda>x. x \<noteq> 0)\<rparr>"

text \<open>
  The clock returns the readings of a script, \<open>time.sleep\<close> raises for a negative
  duration, the device answers each read with the next generator of a script, and
  the callbacks record what they were given.
\<close>

record world0 =
  ticks :: "rat list"
  reads :: "int gen list"
  processed :: "(param \<times> int) list"
  reported :: "exc list"
  slept :: "rat list"
  closed :: nat
  finished :: "bool option"

definition sys0 :: "(rat, world0) sys" where
  "sys0 = \<lparr>timer = (\<lambda>w. case ticks w of [] \<Rightarrow> (0, w) | t # ts \<Rightarrow> (t, w\<lparr>ticks := ts\<rparr>)),
           sleep = (\<lambda>d w. if d < 0 then (Some ValueError, w)
                          else (None, w\<lparr>slept := slept w @ [d]\<rparr>))\<rparr>"

definition via0 :: "(world0, param list, int) via" where
  "via0 = \<lparr>parameter_substitution = (\<lambda>ps pt w. Inr ps),
           read = (\<lambda>a w. case reads w of [] \<Rightarrow> (Stop, w) | g # gs \<Rightarrow> (g, w\<lparr>reads := gs\<rparr>)),
           close_gateway = (\<lambda>w. w\<lparr>closed := Suc (closed w)\<rparr>)\<rparr>"

definition world_of :: "rat list \<Rightarrow> int gen list \<Rightarrow> world0" where
  "world_of ts gs =
     \<lparr>ticks = ts, reads = gs, processed = [], reported = [], slept = [], closed = 0,
      finished = None\<rparr>"

definition process0 :: "(world0, int) process" where
  "process0 = \<lparr>call = (\<lambda>p x w. if x < 0 then (Some (Failure ''negative''), w)
                                 else (None, w\<lparr>processed := processed w @ [(p, x)]\<rparr>)),
               done_attr = finished\<rparr>"

definition process_forever :: "(world0, int) process" where
  "process_forever = \<lparr>call = (\<lambda>p x w. (None, w\<lparr>processed := processed w @ [(p, x)]\<rparr>)),
                      done_attr = (\<lambda>w. None)\<rparr>"

definition failure0 :: "world0 failure" where
  "failure0 = Some (\<lambda>e w. (None, w\<lparr>reported := reported w @ [e]\<rparr>))"

text \<open>A \<open>failure\<close> callback that raises, and the variables of \<open>run\<close> at the start of a pass.\<close>

definition failure_raises :: "world0 failure" where
  "failure_raises = Some (\<lambda>e w. (Some (Failure ''callback''), w\<lparr>reported := reported w @ [e]\<rparr>))"

definition kwds0 :: "rat kwds" where
  "kwds0 = \<lparr>cycle = Some 1, params = Some [Name ''a'', Name ''b''], pass_thru = None\<rparr>"

definition vars0 :: "rat option \<Rightarrow> world0 \<Rightarrow> (rat, world0) vars" where
  "vars0 bk w = \<lparr>backoff = bk, lst = 100, dly = 1 / 2, beg = 100, logged = [], world = w\<rparr>"

section \<open>Properties\<close>

text \<open>The definitions that a concrete run unfolds.\<close>

lemmas world0_defs =
  kwds0_def world_of_def sys0_def via0_def process0_def process_forever_def failure0_def
  failure_raises_def vars0_def exact_def py_max_def py_min_def

lemmas run_defs =
  run_def run_defaults_def run_pass_def run_except_def loop_def execute_def PARAMS_def Let_def

subsection \<open>Auxiliary facts\<close>

text \<open>The literals of the rounded arithmetic.\<close>

lemma double_literals:
  "int_0 double = 0" "int_1 double = 1" "float_1 double = 1"
  by (simp_all add: double_def)

lemma missed_polls_append: "missed_polls (xs @ ys) = missed_polls xs @ missed_polls ys"
  by (induction xs rule: missed_polls.induct) simp_all

lemma list_of_zip_lazy:
  "list_of (zip_lazy ps r) =
     (if length (yielded r) < length ps \<and> raised r \<noteq> None then Inl (the (raised r))
      else Inr (zip ps (yielded r)))"
  by (induction ps r rule: zip_lazy.induct) (auto split: sum.splits)

text \<open>The exception handler of \<open>run\<close> and the three ways through a pass.\<close>

lemma run_except_vars:
  assumes "run_except n f b e m = (p, r, m')"
  shows "p = Failed e
       \<and> backoff m' = Some (case backoff m of None \<Rightarrow> backoff_min b
                              | Some c \<Rightarrow> py_min n (num_mul n c (backoff_multiplier b)) (backoff_max b))
       \<and> dly m' = (case backoff m of None \<Rightarrow> backoff_min b
                              | Some c \<Rightarrow> py_min n (num_mul n c (backoff_multiplier b)) (backoff_max b))
       \<and> lst m' = lst m \<and> beg m' = beg m
       \<and> r = (case f of None \<Rightarrow> None | Some g \<Rightarrow> fst (g e (world m)))
       \<and> world m' = (case f of None \<Rightarrow> world m | Some g \<Rightarrow> snd (g e (world m)))
       \<and> logged m' = logged m @
             [case backoff m of
                None \<Rightarrow> (Normal, PollingFailure (backoff_min b) e)
              | Some c \<Rightarrow>
                  (Detail,
                   PollingBackoff (py_min n (num_mul n c (backoff_multiplier b)) (backoff_max b)) e)]"
  using assms
  by (auto simp: run_except_def Let_def split: option.splits prod.splits)

lemma run_pass_cases:
  assumes "run_pass n s v pr f b kw m = (p, r, m')"
  shows "(p = Waited \<and> backoff m' = backoff m \<and> dly m' = dly m
            \<and> (\<forall>e'. r = Some e' \<longrightarrow> (\<exists>d w'. fst (sleep s d w') = Some e')))
       \<or> (p = Polled \<and> r = None \<and> backoff m' = None)
       \<or> (\<exists>e. p = Failed e
             \<and> backoff m' = Some (case backoff m of None \<Rightarrow> backoff_min b
                              | Some c \<Rightarrow> py_min n (num_mul n c (backoff_multiplier b)) (backoff_max b))
             \<and> dly m' = (case backoff m of None \<Rightarrow> backoff_min b
                              | Some c \<Rightarrow> py_min n (num_mul n c (backoff_multiplier b)) (backoff_max b))
             \<and> (\<forall>e'. r = Some e' \<longrightarrow> (\<exists>g w'. f = Some g \<and> fst (g e w') = Some e')))"
proof -
  obtain now w1 where t: "timer s (world m) = (now, w1)"
    by (cases "timer s (world m)")
  show ?thesis
  proof (cases "num_lt n (num_sub n now (beg m)) (dly m)")
    case True
    obtain r0 w2 where
      sl: "sleep s (py_min n (latency b) (num_sub n (dly m) (num_sub n now (beg m)))) w1 = (r0, w2)"
      by (cases "sleep s (py_min n (latency b) (num_sub n (dly m) (num_sub n now (beg m)))) w1")
    then have "fst (sleep s (py_min n (latency b) (num_sub n (dly m) (num_sub n now (beg m)))) w1)
                 = r0"
      by simp
    then have "\<exists>d w'. fst (sleep s d w') = r0"
      by blast
    with assms t True sl show ?thesis
      by (auto simp: run_pass_def Let_def)
  next
    case False
    obtain lr lg w2 where
      l: "loop n s v (cycle kw) (Some (lst m)) (params kw) (pass_thru kw) w1 = (lr, lg, w2)"
      by (cases "loop n s v (cycle kw) (Some (lst m)) (params kw) (pass_thru kw) w1")
    show ?thesis
    proof (cases lr)
      case (Inl e)
      obtain p1 r1 m1 where
        x: "run_except n f b e (m\<lparr>logged := logged m @ lg, world := w2\<rparr>) = (p1, r1, m1)"
        by (cases "run_except n f b e (m\<lparr>logged := logged m @ lg, world := w2\<rparr>)")
      from run_except_vars[OF x] assms t False l Inl x show ?thesis
        by (auto simp: run_pass_def Let_def split: option.splits prod.splits)
    next
      case (Inr tri)
      obtain l1 d res where tri: "tri = (l1, d, res)"
        by (cases tri)
      obtain pe w3 where pp: "run_process pr res w2 = (pe, w3)"
        by (cases "run_process pr res w2")
      show ?thesis
      proof (cases pe)
        case None
        with assms t False l Inr tri pp show ?thesis
          by (auto simp: run_pass_def Let_def split: prod.splits)
      next
        case (Some e)
        obtain p1 r1 m1 where
          x: "run_except n f b e (m\<lparr>lst := l1, dly := d, logged := logged m @ lg, world := w3\<rparr>)
                = (p1, r1, m1)"
          by (cases "run_except n f b e
                (m\<lparr>lst := l1, dly := d, logged := logged m @ lg, world := w3\<rparr>)")
        from run_except_vars[OF x] assms t False l Inr tri pp Some x show ?thesis
          by (auto simp: run_pass_def Let_def split: option.splits prod.splits)
      qed
    qed
  qed
qed

lemma run_loop_follows:
  "tracks n b k (backoff m) \<Longrightarrow> follows_backoff n b k (fst (run_loop fuel n s v pr f b kw m))"
proof (induction fuel arbitrary: m k)
  case 0
  then show ?case by simp
next
  case (Suc fuel)
  show ?case
  proof (cases "done_attr pr (world m) = Some True")
    case True
    then show ?thesis by simp
  next
    case False
    obtain p r m' where rp: "run_pass n s v pr f b kw m = (p, r, m')"
      by (cases "run_pass n s v pr f b kw m")
    from run_pass_cases[OF rp]
    consider (w) "p = Waited" "backoff m' = backoff m"
      | (ok) "p = Polled" "r = None" "backoff m' = None"
      | (f) e where "p = Failed e"
          "backoff m' = Some (case backoff m of None \<Rightarrow> backoff_min b
                              | Some c \<Rightarrow> py_min n (num_mul n c (backoff_multiplier b)) (backoff_max b))"
          "dly m' = (case backoff m of None \<Rightarrow> backoff_min b
                              | Some c \<Rightarrow> py_min n (num_mul n c (backoff_multiplier b)) (backoff_max b))"
      by auto
    then show ?thesis
    proof cases
      case w
      with Suc.prems have "tracks n b k (backoff m')" by simp
      from Suc.IH[OF this] w False rp show ?thesis
        by (cases r; cases "run_loop fuel n s v pr f b kw m'") simp_all
    next
      case ok
      then have "tracks n b 0 (backoff m')" by (simp add: tracks_def)
      from Suc.IH[OF this] ok False rp show ?thesis
        by (cases "run_loop fuel n s v pr f b kw m'") simp
    next
      case f
      from Suc.prems have nb: "(case backoff m of None \<Rightarrow> backoff_min b
                              | Some c \<Rightarrow> py_min n (num_mul n c (backoff_multiplier b)) (backoff_max b))
                           = spec_backoff n b k"
        by (cases k) (auto simp: tracks_def split: option.splits)
      with f have "tracks n b (Suc k) (backoff m')" by (simp add: tracks_def)
      from Suc.IH[OF this] f nb False rp show ?thesis
        by (cases r; cases "run_loop fuel n s v pr f b kw m'") simp_all
    qed
  qed
qed

text \<open>
  In exact arithmetic, for a multiplier of at least one and
  \<open>0 \<le> backoff_min \<le> backoff_max\<close>, the sequence of the specification is
  \<open>backoff_min\<close> times the powers of the multiplier, capped at \<open>backoff_max\<close>.
\<close>

lemma py_min_exact: "py_min exact a b = min a b"
  by (simp add: py_min_def exact_def min_def)

lemma spec_backoff_closed:
  assumes "0 \<le> backoff_min b" "backoff_min b \<le> backoff_max b" "1 \<le> backoff_multiplier b"
  shows "spec_backoff exact b k = min (backoff_min b * backoff_multiplier b ^ k) (backoff_max b)"
proof (induction k)
  case 0
  with assms show ?case by simp
next
  case (Suc k)
  let ?a = "backoff_min b * backoff_multiplier b ^ k"
  have step: "spec_backoff exact b (Suc k)
                = min (spec_backoff exact b k * backoff_multiplier b) (backoff_max b)"
    by (simp add: py_min_exact) (simp add: exact_def)
  have M: "0 \<le> backoff_max b" using assms by simp
  have grow: "backoff_max b \<le> backoff_max b * backoff_multiplier b"
    using M assms(3) by (simp add: mult_le_cancel_left1)
  show ?case
  proof (cases "?a \<le> backoff_max b")
    case True
    with Suc step show ?thesis by (simp add: min_def mult.assoc mult.commute mult.left_commute)
  next
    case False
    then have big: "backoff_max b < ?a" by simp
    with M have "0 \<le> ?a" by simp
    then have "?a \<le> ?a * backoff_multiplier b"
      using assms(3) by (simp add: mult_le_cancel_left1)
    with big have "backoff_max b < ?a * backoff_multiplier b" by simp
    then have top: "min (?a * backoff_multiplier b) (backoff_max b) = backoff_max b"
      by (simp add: min_def)
    have sk: "spec_backoff exact b k = backoff_max b"
      using Suc big by (simp add: min_def)
    have "spec_backoff exact b (Suc k) = min (backoff_max b * backoff_multiplier b) (backoff_max b)"
      using sk step by simp
    also have "\<dots> = backoff_max b"
      using grow by (simp add: min_def)
    also have "\<dots> = min (?a * backoff_multiplier b) (backoff_max b)"
      using top by simp
    also have "?a * backoff_multiplier b = backoff_min b * backoff_multiplier b ^ Suc k"
      by simp
    finally show ?thesis .
  qed
qed






lemma run_pass_loop_raises:
  assumes "timer s (world m) = (now, w1)" and "\<not> num_lt n (num_sub n now (beg m)) (dly m)"
    and "loop n s v (cycle kw) (Some (lst m)) (params kw) (pass_thru kw) w1 = (Inl e, lg, w2)"
    and "run_pass n s v pr f b kw m = (q, r, m')"
  shows "q = Failed e
       \<and> r = (case f of None \<Rightarrow> None | Some g \<Rightarrow> fst (g e w2))
       \<and> backoff m' = Some (case backoff m of None \<Rightarrow> backoff_min b
                              | Some c \<Rightarrow> py_min n (num_mul n c (backoff_multiplier b)) (backoff_max b))
       \<and> dly m' = (case backoff m of None \<Rightarrow> backoff_min b
                              | Some c \<Rightarrow> py_min n (num_mul n c (backoff_multiplier b)) (backoff_max b))
       \<and> lst m' = lst m
       \<and> logged m' = logged m @ lg @
             [case backoff m of
                None \<Rightarrow> (Normal, PollingFailure (backoff_min b) e)
              | Some c \<Rightarrow>
                  (Detail,
                   PollingBackoff (py_min n (num_mul n c (backoff_multiplier b)) (backoff_max b)) e)]
       \<and> world m' =
           (case f of
              None \<Rightarrow> snd (timer s w2)
            | Some g \<Rightarrow> (case g e w2 of
                           (None, w3) \<Rightarrow> snd (timer s w3)
                         | (Some e', w3) \<Rightarrow> w3))"
proof -
  obtain p1 r1 m1 where
    x: "run_except n f b e (m\<lparr>logged := logged m @ lg, world := w2\<rparr>) = (p1, r1, m1)"
    by (cases "run_except n f b e (m\<lparr>logged := logged m @ lg, world := w2\<rparr>)")
  from run_except_vars[OF x] assms x show ?thesis
    by (auto simp: run_pass_def Let_def split: option.splits prod.splits)
qed

lemma run_process_raises:
  "run_process pr pre w2 = (None, w3) \<Longrightarrow> call pr p x w3 = (Some e, w4)
     \<Longrightarrow> run_process pr (pre @ (p, x) # post) w2 = (Some e, w4)"
proof (induction pre arbitrary: w2)
  case Nil
  then show ?case by simp
next
  case (Cons a pre)
  obtain p0 x0 where a: "a = (p0, x0)" by (cases a)
  obtain r0 w0 where c: "call pr p0 x0 w2 = (r0, w0)" by (cases "call pr p0 x0 w2")
  from Cons.prems(1) a c have "r0 = None" "run_process pr pre w0 = (None, w3)"
    by (cases r0; simp)+
  with Cons.IH[OF _ Cons.prems(2)] a c show ?case
    by simp
qed

lemma run_pass_process_raises:
  assumes "timer s (world m) = (now, w1)" and "\<not> num_lt n (num_sub n now (beg m)) (dly m)"
    and "loop n s v (cycle kw) (Some (lst m)) (params kw) (pass_thru kw) w1
           = (Inr (l, d, res), lg, w2)"
    and "run_process pr res w2 = (Some e, w4)"
    and "run_pass n s v pr f b kw m = (q, r, m')"
  shows "q = Failed e
       \<and> r = (case f of None \<Rightarrow> None | Some g \<Rightarrow> fst (g e w4))
       \<and> backoff m' = Some (case backoff m of None \<Rightarrow> backoff_min b
                              | Some c \<Rightarrow> py_min n (num_mul n c (backoff_multiplier b)) (backoff_max b))
       \<and> dly m' = (case backoff m of None \<Rightarrow> backoff_min b
                              | Some c \<Rightarrow> py_min n (num_mul n c (backoff_multiplier b)) (backoff_max b))
       \<and> lst m' = l"
proof -
  obtain p1 r1 m1 where
    x: "run_except n f b e (m\<lparr>lst := l, dly := d, logged := logged m @ lg, world := w4\<rparr>)
          = (p1, r1, m1)"
    by (cases "run_except n f b e (m\<lparr>lst := l, dly := d, logged := logged m @ lg, world := w4\<rparr>)")
  from run_except_vars[OF x] assms x show ?thesis
    by (auto simp: run_pass_def Let_def split: option.splits prod.splits)
qed

subsection \<open>The cadence of loop\<close>

text \<open>
  C1. The claim that the last poll advances by exactly the cycle times the floor of
  the elapsed time over the cycle, and that the notice counts that floor, fails in
  the arithmetic of floats. With a cycle and a last poll of 0.1 and a clock that
  reads 1.1, the code computes an elapsed time of 1.0, counts \<open>1.0 // 0.1 = 9\<close>
  missed polls and returns the last poll 1.0; the elapsed time over the cycle has the
  floor 10, and the last poll advanced by ten cycles is not 1.0.
\<close>

theorem loop_cadence_rounded_counterexample:
  "fst (loop double sys0 via0 (Some (round53 (1 / 10))) (Some (round53 (1 / 10)))
          (Some [Name ''a'']) None
          (world_of [round53 (11 / 10), round53 (11 / 10)] [Yield 7 Stop]))
     = Inr (1, 0, [(Name ''a'', 7)])
   \<and> missed_polls (fst (snd (loop double sys0 via0 (Some (round53 (1 / 10)))
          (Some (round53 (1 / 10))) (Some [Name ''a'']) None
          (world_of [round53 (11 / 10), round53 (11 / 10)] [Yield 7 Stop])))) = [9]
   \<and> \<lfloor>(round53 (11 / 10) - round53 (1 / 10)) / round53 (1 / 10)\<rfloor> = 10
   \<and> round53 (1 / 10) + round53 (1 / 10) * 10 \<noteq> 1"
proof -
  have b1: "num_bool double (round53 (1 / 10))"
    by code_simp
  have f1: "num_sub double (round53 (11 / 10)) (round53 (1 / 10)) = 1"
    by code_simp
  have f2: "\<not> num_lt double 1 (round53 (1 / 10))"
    by code_simp
  have f3: "num_floordiv double 1 (round53 (1 / 10)) = 9"
    by code_simp
  have f4: "num_mul double (round53 (1 / 10)) 9 = round53 (9 / 10)"
    by code_simp
  have f5: "num_add double (round53 (1 / 10)) (round53 (9 / 10)) = 1"
    by code_simp
  have f6: "num_lt double 1 9"
    by code_simp
  have f7: "num_sub double (round53 (11 / 10)) (round53 (11 / 10)) = 0"
    by code_simp
  have f8: "\<not> num_bool double 0"
    by code_simp
  have f9: "num_add double 1 (round53 (1 / 10)) = round53 (11 / 10)"
    by code_simp
  have f10: "\<not> num_lt double 0 0"
    by code_simp
  have x1: "\<lfloor>(round53 (11 / 10) - round53 (1 / 10)) / round53 (1 / 10)\<rfloor> = 10"
    by code_simp
  have x2: "round53 (1 / 10) + round53 (1 / 10) * 10 \<noteq> 1"
    by code_simp
  have "loop double sys0 via0 (Some (round53 (1 / 10))) (Some (round53 (1 / 10)))
          (Some [Name ''a'']) None
          (world_of [round53 (11 / 10), round53 (11 / 10)] [Yield 7 Stop])
     = (Inr (1, 0, [(Name ''a'', 7)]),
        [(Normal, Missed 9 (num_sub double 1 (round53 (1 / 10))) (round53 (1 / 10))),
         (Info, Started (num_sub double (round53 (11 / 10)) 1) (round53 (1 / 10))),
         (Info, Finished (num_sub double (round53 (11 / 10)) 1) (round53 (1 / 10)) 0 None)],
        world_of [] [])"
    by (simp add: loop_def Let_def execute_def py_max_def world_of_def sys0_def via0_def
        double_literals b1 f1 f2 f3 f4 f5 f6 f7 f8 f9 f10)
  with x1 x2 show ?thesis
    by (simp only: fst_conv snd_conv missed_polls.simps) blast
qed

text \<open>
  C1, as amended. A call of \<open>loop\<close> with a cycle \<open>c\<close> and a last poll \<open>lp\<close> that
  Python takes for true (as it does every cycle greater than zero and every last
  poll that was set), made when the clock reads \<open>now\<close>, with \<open>dt = now - lp\<close> as
  the code computes it: if it returns, the last poll it returns is \<open>lp\<close> itself when
  \<open>dt < c\<close>, and otherwise \<open>lp + c * (dt // c)\<close>, each operation being the one the
  code applies, rounded as its arithmetic rounds. Its log has a "Missed polls" entry
  exactly when \<open>dt < c\<close> is false and \<open>dt // c\<close> exceeds one, reporting \<open>dt // c\<close>;
  with a last poll that is false (zero) or \<open>None\<close> it has none.
\<close>

theorem loop_cadence:
  assumes "num_bool n c" and "num_bool n lp"
    and "loop n s v (Some c) (Some lp) ps pt w = (r, lg, w')"
  shows "(\<forall>l d res. r = Inr (l, d, res) \<longrightarrow>
            l = (if num_lt n (num_sub n (fst (timer s w)) lp) c then lp
                 else num_add n lp
                        (num_mul n c (num_floordiv n (num_sub n (fst (timer s w)) lp) c))))
       \<and> missed_polls lg =
            (if \<not> num_lt n (num_sub n (fst (timer s w)) lp) c
                \<and> num_lt n (int_1 n) (num_floordiv n (num_sub n (fst (timer s w)) lp) c)
             then [num_floordiv n (num_sub n (fst (timer s w)) lp) c] else [])
       \<and> (\<forall>z. \<not> num_bool n z
             \<longrightarrow> missed_polls (fst (snd (loop n s v (Some c) (Some z) ps pt w))) = [])
       \<and> missed_polls (fst (snd (loop n s v (Some c) None ps pt w))) = []"
  using assms
  by (auto simp: loop_def Let_def missed_polls_append split: prod.splits sum.splits if_splits)

text \<open>
  The call made 4.5 into a cycle of 1 after a last poll at 100: four cycles are
  reported missed and the last poll advances to 104.
\<close>

theorem loop_cadence_witness:
  "num_bool exact 1 \<and> num_bool exact 100 \<and> (0::rat) < 1
   \<and> loop exact sys0 via0 (Some 1) (Some 100) (Some [Name ''a'']) None
        (world_of [209 / 2, 105] [Yield 7 Stop])
      = (Inr (104, 0, [(Name ''a'', 7)]),
         [(Normal, Missed 4 (7 / 2) 1), (Info, Started (1 / 2) 1),
          (Info, Finished 1 1 (1 / 2) (Some 2))],
         world_of [] [])
   \<and> num_sub exact (fst (timer sys0 (world_of [209 / 2, 105] [Yield 7 Stop]))) 100 = 9 / 2
   \<and> num_floordiv exact (9 / 2) 1 = 4
   \<and> (104::rat) = num_add exact 100 (num_mul exact 1 (num_floordiv exact (9 / 2) 1))
   \<and> missed_polls [(Normal, Missed 4 (7 / 2) 1), (Info, Started (1 / 2) 1),
          (Info, Finished (1::rat) 1 (1 / 2) (Some 2))] = [4]
   \<and> missed_polls (fst (snd (loop exact sys0 via0 (Some 1) (Some 0) (Some [Name ''a'']) None
        (world_of [209 / 2, 105] [Yield 7 Stop])))) = []"
proof -
  have run: "loop exact sys0 via0 (Some 1) (Some 100) (Some [Name ''a'']) None
        (world_of [209 / 2, 105] [Yield 7 Stop])
      = (Inr (104, 0, [(Name ''a'', 7)]),
         [(Normal, Missed 4 (7 / 2) 1), (Info, Started (1 / 2) 1),
          (Info, Finished 1 1 (1 / 2) (Some 2))],
         world_of [] [])"
    by (simp add: loop_def Let_def execute_def world0_defs floor_eq_iff)
  have now: "num_sub exact (fst (timer sys0 (world_of [209 / 2, 105] [Yield 7 Stop]))) 100 = 9 / 2"
    by (simp add: world0_defs)
  have c: "num_bool exact 1" and lp: "num_bool exact 100" and z: "\<not> num_bool exact 0"
    by (simp_all add: exact_def)
  have fl: "num_floordiv exact (9 / 2) 1 = 4"
    by (simp add: exact_def floor_eq_iff)
  from loop_cadence [OF c lp run] z
  have "missed_polls (fst (snd (loop exact sys0 via0 (Some 1) (Some 0) (Some [Name ''a'']) None
        (world_of [209 / 2, 105] [Yield 7 Stop])))) = []"
    by blast
  with loop_cadence [OF c lp run] now run c lp fl show ?thesis
    by (simp add: exact_def)
qed

subsection \<open>The back-off of run\<close>

text \<open>
  C2. The claim that the delays of consecutive failures are \<open>backoff_min\<close> times the
  powers of the multiplier, each capped at \<open>backoff_max\<close>, fails at the first
  failure where \<open>backoff_min\<close> exceeds \<open>backoff_max\<close>: with a \<open>backoff_min\<close> of 4 and
  a \<open>backoff_max\<close> of 2, three consecutive failures wait 4, 2 and 2, and the first
  is not capped at 2.
\<close>

theorem run_backoff_uncapped_counterexample:
  "trace_backoffs (fst (run 3 exact sys0 via0 process0 failure0 (Some 4) None (Some 2) None kwds0
       (world_of [100, 100, 100, 100, 104, 104, 104, 106, 106, 106]
          [Throw (Failure ''timeout''), Throw (Failure ''timeout''),
           Throw (Failure ''timeout'')])))
    = [(Failed (Failure ''timeout''), Some 4, 4),
       (Failed (Failure ''timeout''), Some 2, 2),
       (Failed (Failure ''timeout''), Some 2, 2)]
   \<and> run_defaults exact (Some 4) None (Some 2) None kwds0
       = \<lparr>backoff_min = 4, backoff_multiplier = 3 / 2, backoff_max = 2, latency = 1 / 2\<rparr>
   \<and> min (4 * (3 / 2) ^ 0) (2::rat) = 2"
  by (simp add: trace_backoffs_def run_defs world0_defs floor_eq_iff numeral_eq_Suc)

text \<open>
  C2, as amended. In every trace of \<open>run\<close>, whatever the arithmetic, the clock, the
  device and the callbacks do: the first failed poll, at the start or after a
  completed poll, leaves the back-off and the pending delay at \<open>backoff_min\<close>,
  whatever \<open>backoff_max\<close> is; each further consecutive failure leaves them at the
  smaller of the previous back-off times the multiplier and \<open>backoff_max\<close>; a
  completed poll leaves the back-off inactive, so that the next failure starts from
  \<open>backoff_min\<close> again. The product and the comparison are the ones the code
  applies, rounded as its arithmetic rounds.
\<close>

theorem run_backoff_sequence:
  "follows_backoff n (run_defaults n bmin bmul bmax lat kw) 0
     (fst (run fuel n s v pr f bmin bmul bmax lat kw w))
   \<and> spec_backoff n b 0 = backoff_min b
   \<and> spec_backoff n b (Suc k)
       = py_min n (num_mul n (spec_backoff n b k) (backoff_multiplier b)) (backoff_max b)"
proof -
  have "follows_backoff n (run_defaults n bmin bmul bmax lat kw) 0
     (fst (run fuel n s v pr f bmin bmul bmax lat kw w))"
    by (cases "timer s w") (simp add: run_def run_loop_follows tracks_def)
  then show ?thesis
    by simp
qed

text \<open>
  Three failed polls, a completed one and a failed one, with the defaults for a cycle
  of 1: the delays are 1, 1.5 and 2.25, then the delay of the cycle, then 1 again.
\<close>

theorem run_backoff_sequence_witness:
  "trace_backoffs (fst (run 5 exact sys0 via0 process0 failure0 None None None None kwds0
       (world_of [100, 100, 100, 100, 101, 101, 101, 103, 103, 103, 106, 106, 213 / 2, 213 / 2,
                  107, 107, 107]
          [Throw (Failure ''timeout''), Throw (Failure ''timeout''), Throw (Failure ''timeout''),
           Yield 1 (Yield 2 Stop), Throw (Failure ''timeout'')])))
    = [(Failed (Failure ''timeout''), Some 1, 1),
       (Failed (Failure ''timeout''), Some (3 / 2), 3 / 2),
       (Failed (Failure ''timeout''), Some (9 / 4), 9 / 4),
       (Polled, None, 1 / 2),
       (Failed (Failure ''timeout''), Some 1, 1)]
   \<and> follows_backoff exact (run_defaults exact None None None None kwds0) 0
       (fst (run 5 exact sys0 via0 process0 failure0 None None None None kwds0
       (world_of [100, 100, 100, 100, 101, 101, 101, 103, 103, 103, 106, 106, 213 / 2, 213 / 2,
                  107, 107, 107]
          [Throw (Failure ''timeout''), Throw (Failure ''timeout''), Throw (Failure ''timeout''),
           Yield 1 (Yield 2 Stop), Throw (Failure ''timeout'')])))
   \<and> run_defaults exact None None None None kwds0
       = \<lparr>backoff_min = 1, backoff_multiplier = 3 / 2, backoff_max = 10, latency = 1 / 2\<rparr>
   \<and> spec_backoff exact (run_defaults exact None None None None kwds0) 0 = 1
   \<and> spec_backoff exact (run_defaults exact None None None None kwds0) 2 = 9 / 4
   \<and> spec_backoff exact (run_defaults exact None None None None kwds0) 7 = 10"
proof -
  have tr: "trace_backoffs (fst (run 5 exact sys0 via0 process0 failure0 None None None None kwds0
       (world_of [100, 100, 100, 100, 101, 101, 101, 103, 103, 103, 106, 106, 213 / 2, 213 / 2,
                  107, 107, 107]
          [Throw (Failure ''timeout''), Throw (Failure ''timeout''), Throw (Failure ''timeout''),
           Yield 1 (Yield 2 Stop), Throw (Failure ''timeout'')])))
    = [(Failed (Failure ''timeout''), Some 1, 1),
       (Failed (Failure ''timeout''), Some (3 / 2), 3 / 2),
       (Failed (Failure ''timeout''), Some (9 / 4), 9 / 4),
       (Polled, None, 1 / 2),
       (Failed (Failure ''timeout''), Some 1, 1)]"
    by (simp add: trace_backoffs_def run_defs world0_defs floor_eq_iff numeral_eq_Suc)
  have cfg: "run_defaults exact None None None None kwds0
       = \<lparr>backoff_min = 1, backoff_multiplier = 3 / 2, backoff_max = 10, latency = 1 / 2\<rparr>"
    by (simp add: run_defaults_def kwds0_def exact_def)
  have s7: "spec_backoff exact (run_defaults exact None None None None kwds0) 7 = 10"
    unfolding cfg by (simp add: numeral_eq_Suc py_min_def exact_def)
  have s2: "spec_backoff exact (run_defaults exact None None None None kwds0) 2 = 9 / 4"
    unfolding cfg by (simp add: numeral_eq_Suc py_min_def exact_def)
  from run_backoff_sequence
         [where n = exact and fuel = 5 and s = sys0 and v = via0 and pr = process0
            and f = failure0 and bmin = None and bmul = None and bmax = None and lat = None
            and kw = kwds0 and b = "run_defaults exact None None None None kwds0"]
    tr cfg s2 s7
  show ?thesis
    by simp
qed

subsection \<open>The invariant of the last poll\<close>

text \<open>
  C3. Along successive calls of \<open>loop\<close> that hand each returned last poll to the next
  call, the returned value is meant to be the first initialisation plus a whole
  number of cycles. From the unset last poll 0 that \<open>run\<close> starts with and a cycle
  of 10, a call made when the clock reads 3 returns 0, and the next call, made at
  12, initialises and returns 12: the first of the two returned values is not 12
  plus a multiple of 10.
\<close>

theorem loop_returns_off_grid:
  "loop exact sys0 via0 (Some 10) (Some 0) (Some [Name ''a'']) None
      (world_of [3, 4, 12, 13] [Yield 7 Stop, Yield 8 Stop])
     = (Inr (0, 6, [(Name ''a'', 7)]),
        [(Info, Premature 3 10), (Info, Started 3 10), (Info, Finished 4 10 1 (Some 1))],
        world_of [12, 13] [Yield 8 Stop])
   \<and> loop exact sys0 via0 (Some 10) (Some 0) (Some [Name ''a'']) None
        (world_of [12, 13] [Yield 8 Stop])
     = (Inr (12, 9, [(Name ''a'', 8)]),
        [(Info, Started 0 10), (Info, Finished 1 10 1 (Some 1))],
        world_of [] [])
   \<and> \<not> (\<exists>k::nat. (0::rat) = 12 + of_nat k * 10)"
proof -
  have "(0::rat) < 12 + of_nat k * 10" for k :: nat
    by (simp add: add_pos_nonneg)
  then have "\<not> (\<exists>k::nat. (0::rat) = 12 + of_nat k * 10)"
    by (metis less_irrefl)
  then show ?thesis
    by (simp add: loop_def Let_def execute_def world0_defs floor_eq_iff)
qed

subsection \<open>The results of execute\<close>

text \<open>
  C4. The claim that \<open>execute\<close> gives a pair for every requested parameter or raises
  fails where the read yields fewer values than there are parameters: for two
  parameters and a read that yields one value and ends, consuming \<open>execute\<close> gives
  one pair and no error.
\<close>

theorem execute_ragged_counterexample:
  "list_of (fst (execute via0 (Some [Name ''a'', Name ''b'']) None (world_of [] [Yield 7 Stop])))
     = Inr [(Name ''a'', 7)]"
  by (simp add: execute_def via0_def world_of_def)

text \<open>
  C4, as amended. Consuming \<open>execute\<close> raises the error of the parameter
  substitution if that fails, and the exception of the read if the read raises
  before it has yielded one value per parameter. Otherwise it gives the parameters
  paired in request order with the values the read yielded, as many pairs as the
  shorter of the two: one pair per parameter when the read yields enough values, and
  only as many pairs as values, with no error, when the read ends early.
\<close>

theorem execute_pairs_up_to_shorter:
  "list_of (fst (execute v ps pt w)) =
     (case parameter_substitution v (or_PARAMS ps) pt w of
        Inl e \<Rightarrow> Inl e
      | Inr a \<Rightarrow>
          if length (yielded (fst (read v a w))) < length (or_PARAMS ps)
             \<and> raised (fst (read v a w)) \<noteq> None
          then Inl (the (raised (fst (read v a w))))
          else Inr (zip (or_PARAMS ps) (yielded (fst (read v a w)))))"
  by (auto simp: execute_def list_of_zip_lazy split: sum.splits prod.splits)

subsection \<open>The end of run\<close>




subsection \<open>The delay returned by loop\<close>

text \<open>
  C6. The claim that the delay is exactly \<open>max(0, last_poll + cycle - done_poll)\<close>
  fails in the arithmetic of floats. With a cycle of 0.2, a last poll of 0.1 and a
  clock that reads 0.25 and then 0.3, the code returns the delay
  \<open>(0.1 + 0.2) - 0.3\<close> with the sum rounded, which is \<open>2^-54\<close>; the exact value of
  the expression on the same three floats is \<open>2^-55\<close>.
\<close>

theorem loop_delay_rounded_counterexample:
  "fst (loop double sys0 via0 (Some (round53 (1 / 5))) (Some (round53 (1 / 10)))
          (Some [Name ''a'']) None
          (world_of [1 / 4, round53 (3 / 10)] [Yield 7 Stop]))
     = Inr (round53 (1 / 10), 1 / 18014398509481984, [(Name ''a'', 7)])
   \<and> max 0 (round53 (1 / 10) + round53 (1 / 5) - round53 (3 / 10)) = 1 / 36028797018963968"
proof -
  have b1: "num_bool double (round53 (1 / 5))"
    by code_simp
  have g2: "num_lt double (num_sub double (1 / 4) (round53 (1 / 10))) (round53 (1 / 5))"
    by code_simp
  have g3: "num_bool double (num_sub double (round53 (3 / 10)) (1 / 4))"
    by code_simp
  have g4: "num_sub double (num_add double (round53 (1 / 10)) (round53 (1 / 5)))
              (round53 (3 / 10)) = 1 / 18014398509481984"
    by code_simp
  have g5: "num_lt double 0 (1 / 18014398509481984)"
    by code_simp
  have x1: "max 0 (round53 (1 / 10) + round53 (1 / 5) - round53 (3 / 10))
              = 1 / 36028797018963968"
    by code_simp
  have "fst (loop double sys0 via0 (Some (round53 (1 / 5))) (Some (round53 (1 / 10)))
          (Some [Name ''a'']) None
          (world_of [1 / 4, round53 (3 / 10)] [Yield 7 Stop]))
     = Inr (round53 (1 / 10), 1 / 18014398509481984, [(Name ''a'', 7)])"
    by (simp add: loop_def Let_def execute_def py_max_def world_of_def sys0_def via0_def
        double_literals b1 g2 g3 g4 g5)
  with x1 show ?thesis
    by blast
qed

text \<open>
  C6, as amended. Every call of \<open>loop\<close> that returns gives the delay
  \<open>max( 0, last_poll + cycle - done_poll )\<close> as the code computes it: \<open>last_poll\<close> is
  the value it returns, \<open>cycle\<close> is the cycle in force (1.0 for \<open>None\<close> or a false
  one), \<open>done_poll\<close> is the reading of the clock after the read, and the sum and
  the difference are the operations the code applies, rounded as its arithmetic
  rounds. The delay is never negative: it is 0 or greater than 0.
\<close>

theorem loop_delay:
  assumes "loop n s v cyc lp ps pt w = (Inr (l, d, res), lg, w')"
  shows "d = py_max n (int_0 n)
               (num_sub n
                  (num_add n l (case cyc of None \<Rightarrow> float_1 n
                                | Some c \<Rightarrow> if num_bool n c then c else float_1 n))
                  (fst (timer s (snd (execute v ps pt (snd (timer s w)))))))
       \<and> (d = int_0 n \<or> num_lt n (int_0 n) d)"
  using assms
  by (auto simp: loop_def Let_def py_max_def split: prod.splits sum.splits if_splits option.splits)

text \<open>
  A first poll at 100 with the default cycle whose read is over at 100.5 leaves half
  a cycle to wait.
\<close>

theorem loop_delay_witness:
  "loop exact sys0 via0 None (Some 0) None None
        (world_of [100, 201 / 2] [Yield 3 (Yield 4 Stop)])
      = (Inr (100, 1 / 2, [(Name ''Output Current'', 3), (Name ''Motor Velocity'', 4)]),
         [(Info, Started 0 1), (Info, Finished (1 / 2) 1 (1 / 2) (Some 2))],
         world_of [] [])
   \<and> fst (timer sys0 (snd (execute via0 None None
            (snd (timer sys0 (world_of [100, 201 / 2] [Yield 3 (Yield 4 Stop)])))))) = 201 / 2
   \<and> (1 / 2 :: rat) = py_max exact 0 (num_sub exact (num_add exact 100 1) (201 / 2))
   \<and> (1 / 2 :: rat) = max 0 (100 + 1 - 201 / 2)
   \<and> num_lt exact (int_0 exact) (1 / 2)"
proof -
  have run: "loop exact sys0 via0 None (Some 0) None None
        (world_of [100, 201 / 2] [Yield 3 (Yield 4 Stop)])
      = (Inr (100, 1 / 2, [(Name ''Output Current'', 3), (Name ''Motor Velocity'', 4)]),
         [(Info, Started 0 1), (Info, Finished (1 / 2) 1 (1 / 2) (Some 2))],
         world_of [] [])"
    by (simp add: loop_def Let_def execute_def PARAMS_def world0_defs floor_eq_iff)
  have fin: "fst (timer sys0 (snd (execute via0 None None
            (snd (timer sys0 (world_of [100, 201 / 2] [Yield 3 (Yield 4 Stop)])))))) = 201 / 2"
    by (simp add: execute_def world0_defs)
  from loop_delay [OF run] fin run show ?thesis
    by (simp add: exact_def py_max_def)
qed

subsection \<open>The first call of loop\<close>

text \<open>
  C7. A first call of \<open>loop\<close>, with no last poll set, is meant to return the reading
  of the clock at its start as the last poll. With the default \<open>None\<close> the
  subtraction raises a \<open>TypeError\<close>; with the zero that \<open>run\<close> passes, a cycle of 10
  and a clock that reads 3, the call is taken for a premature poll and returns the
  last poll 0, not 3.
\<close>

theorem loop_first_call_not_initialised:
  "fst (loop exact sys0 via0 (Some 10) None (Some [Name ''a'']) None
          (world_of [3, 4] [Yield 7 Stop])) = Inl TypeError
   \<and> fst (loop exact sys0 via0 (Some 10) (Some 0) (Some [Name ''a'']) None
          (world_of [3, 4] [Yield 7 Stop])) = Inr (0, 6, [(Name ''a'', 7)])
   \<and> fst (timer sys0 (world_of [3, 4] [Yield 7 Stop])) = 3"
  by (simp add: loop_def Let_def execute_def world0_defs)

subsection \<open>The defaults of run\<close>

text \<open>
  C8. The defaults of \<open>run\<close> are the cycle, or 1 without one, for \<open>backoff_min\<close>,
  ten times that for \<open>backoff_max\<close>, 1.5 for the multiplier and 0.5 for the latency.
  A cycle of zero, which \<open>loop\<close> replaces by 1, is meant to give a \<open>backoff_min\<close>
  of 1 as well; \<open>run\<close> tests for \<open>None\<close> only and takes the zero, so that both
  \<open>backoff_min\<close> and \<open>backoff_max\<close> are 0, while \<open>loop\<close> polls with a cycle of 1.
\<close>

theorem run_defaults_zero_cycle:
  "run_defaults exact None None None None \<lparr>cycle = Some 0, params = None, pass_thru = None\<rparr>
     = \<lparr>backoff_min = 0, backoff_multiplier = 3 / 2, backoff_max = 0, latency = 1 / 2\<rparr>
   \<and> fst (loop exact sys0 via0 (Some 0) (Some 100) None None (world_of [201 / 2, 201 / 2] []))
     = Inr (100, 1 / 2, [])"
  by (simp add: run_defs world0_defs)

subsection \<open>An empty sequence of parameters\<close>

text \<open>
  C9. An empty sequence of parameters is to \<open>execute\<close> what an omitted one is: the
  module's list \<open>PARAMS\<close> is substituted and read, and its entries are paired in
  order with the values read, so that a read of two values gives the pair of
  "Output Current" with the first and the pair of "Motor Velocity" with the second.
  Nothing raises because the sequence is empty: the only errors are those of the
  substitution and of the read. \<open>loop\<close> behaves alike for both.
\<close>

theorem execute_empty_params:
  "execute v (Some []) pt w = execute v None pt w
   \<and> execute v (Some []) pt w =
       (case parameter_substitution v PARAMS pt w of
          Inl e \<Rightarrow> (Throw e, w)
        | Inr a \<Rightarrow> (zip_lazy [Name ''Output Current'', Name ''Motor Velocity''] (fst (read v a w)),
                   snd (read v a w)))
   \<and> loop n s v cyc lp (Some []) pt w = loop n s v cyc lp None pt w
   \<and> list_of (fst (execute v (Some []) pt w)) =
       (case parameter_substitution v [Name ''Output Current'', Name ''Motor Velocity''] pt w of
          Inl e \<Rightarrow> Inl e
        | Inr a \<Rightarrow>
            if length (yielded (fst (read v a w))) < 2 \<and> raised (fst (read v a w)) \<noteq> None
            then Inl (the (raised (fst (read v a w))))
            else Inr (zip [Name ''Output Current'', Name ''Motor Velocity'']
                         (yielded (fst (read v a w)))))
   \<and> (\<forall>a x y r w'.
         parameter_substitution v [Name ''Output Current'', Name ''Motor Velocity''] pt w = Inr a
         \<and> read v a w = (Yield x (Yield y r), w')
         \<longrightarrow> execute v (Some []) pt w
               = (Yield (Name ''Output Current'', x) (Yield (Name ''Motor Velocity'', y) Stop), w')
           \<and> list_of (fst (execute v (Some []) pt w))
               = Inr [(Name ''Output Current'', x), (Name ''Motor Velocity'', y)])"
proof -
  have "or_PARAMS (Some []) = or_PARAMS None"
    by simp
  then have same: "execute v (Some []) pt w' = execute v None pt w'" for w'
    by (simp only: execute_def)
  have unfolded: "execute v (Some []) pt w =
       (case parameter_substitution v PARAMS pt w of
          Inl e \<Rightarrow> (Throw e, w)
        | Inr a \<Rightarrow> (zip_lazy [Name ''Output Current'', Name ''Motor Velocity''] (fst (read v a w)),
                   snd (read v a w)))"
    by (simp add: execute_def PARAMS_def split: sum.splits prod.splits)
  have lp: "loop n s v cyc lp (Some []) pt w = loop n s v cyc lp None pt w"
    unfolding loop_def same ..
  have all: "list_of (fst (execute v (Some []) pt w)) =
       (case parameter_substitution v [Name ''Output Current'', Name ''Motor Velocity''] pt w of
          Inl e \<Rightarrow> Inl e
        | Inr a \<Rightarrow>
            if length (yielded (fst (read v a w))) < 2 \<and> raised (fst (read v a w)) \<noteq> None
            then Inl (the (raised (fst (read v a w))))
            else Inr (zip [Name ''Output Current'', Name ''Motor Velocity'']
                         (yielded (fst (read v a w)))))"
    by (auto simp: execute_def PARAMS_def list_of_zip_lazy split: sum.splits prod.splits)
  have two: "execute v (Some []) pt w
               = (Yield (Name ''Output Current'', x) (Yield (Name ''Motor Velocity'', y) Stop), w')
           \<and> list_of (fst (execute v (Some []) pt w))
               = Inr [(Name ''Output Current'', x), (Name ''Motor Velocity'', y)]"
    if "parameter_substitution v [Name ''Output Current'', Name ''Motor Velocity''] pt w = Inr a"
      and "read v a w = (Yield x (Yield y r), w')"
    for a x y r w'
    using that by (simp add: execute_def PARAMS_def)
  from same unfolded lp all two show ?thesis
    by blast
qed

text \<open>A read of 3 and 4 for the empty sequence.\<close>

theorem execute_empty_params_witness:
  "parameter_substitution via0 [Name ''Output Current'', Name ''Motor Velocity''] None
       (world_of [] [Yield 3 (Yield 4 Stop)])
     = Inr [Name ''Output Current'', Name ''Motor Velocity'']
   \<and> read via0 [Name ''Output Current'', Name ''Motor Velocity'']
       (world_of [] [Yield 3 (Yield 4 Stop)])
     = (Yield 3 (Yield 4 Stop), world_of [] [])
   \<and> execute via0 (Some []) None (world_of [] [Yield 3 (Yield 4 Stop)])
     = (Yield (Name ''Output Current'', 3) (Yield (Name ''Motor Velocity'', 4) Stop),
        world_of [] [])
   \<and> list_of (fst (execute via0 (Some []) None (world_of [] [Yield 3 (Yield 4 Stop)])))
     = Inr [(Name ''Output Current'', 3), (Name ''Motor Velocity'', 4)]
   \<and> execute via0 None None (world_of [] [Yield 3 (Yield 4 Stop)])
     = (Yield (Name ''Output Current'', 3) (Yield (Name ''Motor Velocity'', 4) Stop),
        world_of [] [])"
proof -
  let ?w = "world_of [] [Yield 3 (Yield 4 Stop)]"
  have sub: "parameter_substitution via0 [Name ''Output Current'', Name ''Motor Velocity''] None ?w
     = Inr [Name ''Output Current'', Name ''Motor Velocity'']"
    by (simp add: via0_def)
  have rd: "read via0 [Name ''Output Current'', Name ''Motor Velocity''] ?w
     = (Yield 3 (Yield 4 Stop), world_of [] [])"
    by (simp add: via0_def world_of_def)
  note inst = execute_empty_params [of via0 None ?w]
  from inst sub rd
  have "execute via0 (Some []) None ?w
     = (Yield (Name ''Output Current'', 3) (Yield (Name ''Motor Velocity'', 4) Stop),
        world_of [] [])
   \<and> list_of (fst (execute via0 (Some []) None ?w))
     = Inr [(Name ''Output Current'', 3), (Name ''Motor Velocity'', 4)]"
    by blast
  moreover from inst have "execute via0 (Some []) None ?w = execute via0 None None ?w"
    by blast
  ultimately show ?thesis
    using sub rd by simp
qed

subsection \<open>An exception of the process callback\<close>

text \<open>
  C10. A pass in which \<open>loop\<close> returns its results and the \<open>process\<close> callback
  raises at one of the pairs, after the pairs before it were processed: the pass
  goes through the handler with the exception of the callback. The back-off is set
  to \<open>backoff_min\<close> if it was inactive and escalated otherwise, it is not cleared,
  the pending delay is the back-off and not the delay that \<open>loop\<close> returned, and
  the \<open>failure\<close> callback is called with that exception in the world the earlier
  pairs left. The last poll is the one \<open>loop\<close> returned. A pass from the same
  variables in which \<open>loop\<close> itself raises that exception leaves the same back-off
  and pending delay. This holds in every arithmetic; in the exact one \<open>py_min\<close>
  and \<open>num_mul\<close> are \<open>min\<close> and the product.
\<close>

theorem process_exception_takes_backoff_path:
  assumes "timer s (world m) = (now, w1)" and "\<not> num_lt n (num_sub n now (beg m)) (dly m)"
    and "loop n s v (cycle kw) (Some (lst m)) (params kw) (pass_thru kw) w1
           = (Inr (l, d, pre @ (p, x) # post), lg, w2)"
    and "run_process pr pre w2 = (None, w3)"
    and "call pr p x w3 = (Some e, w4)"
    and "run_pass n s v pr f b kw m = (q, r, m')"
  shows "q = Failed e
       \<and> backoff m' = Some (case backoff m of None \<Rightarrow> backoff_min b
                              | Some c \<Rightarrow> py_min n (num_mul n c (backoff_multiplier b)) (backoff_max b))
       \<and> dly m' = (case backoff m of None \<Rightarrow> backoff_min b
                              | Some c \<Rightarrow> py_min n (num_mul n c (backoff_multiplier b)) (backoff_max b))
       \<and> r = (case f of None \<Rightarrow> None | Some g \<Rightarrow> fst (g e w4))
       \<and> lst m' = l
       \<and> (\<forall>v2 lg2 w5 q2 r2 m2.
             loop n s v2 (cycle kw) (Some (lst m)) (params kw) (pass_thru kw) w1 = (Inl e, lg2, w5)
             \<and> run_pass n s v2 pr f b kw m = (q2, r2, m2)
             \<longrightarrow> q2 = q \<and> backoff m2 = backoff m' \<and> dly m2 = dly m')
       \<and> py_min exact = min \<and> num_mul exact = (*)"
proof -
  have "run_process pr (pre @ (p, x) # post) w2 = (Some e, w4)"
    using assms(4,5) by (rule run_process_raises)
  from run_pass_process_raises [OF assms(1,2,3) this assms(6)]
  have here: "q = Failed e
       \<and> r = (case f of None \<Rightarrow> None | Some g \<Rightarrow> fst (g e w4))
       \<and> backoff m' = Some (case backoff m of None \<Rightarrow> backoff_min b
                              | Some c \<Rightarrow> py_min n (num_mul n c (backoff_multiplier b)) (backoff_max b))
       \<and> dly m' = (case backoff m of None \<Rightarrow> backoff_min b
                              | Some c \<Rightarrow> py_min n (num_mul n c (backoff_multiplier b)) (backoff_max b))
       \<and> lst m' = l" .
  have ex: "py_min exact = min \<and> num_mul exact = (*)"
    by (auto simp: fun_eq_iff py_min_exact) (simp add: exact_def)
  from here ex show ?thesis
    by (auto dest!: run_pass_loop_raises [OF assms(1,2)])
qed

text \<open>
  The second of two pairs is refused by the callback: the first pair has been
  processed, the exception is reported, and the back-off goes from 1 to 1.5.
\<close>

theorem process_exception_takes_backoff_path_witness:
  "timer sys0 (world (vars0 (Some 1) (world_of [101, 101, 102, 102] [Yield 5 (Yield (- 2) Stop)])))
     = (101, world_of [101, 102, 102] [Yield 5 (Yield (- 2) Stop)])
   \<and> \<not> num_lt exact
          (num_sub exact 101
             (beg (vars0 (Some 1) (world_of [101, 101, 102, 102] [Yield 5 (Yield (- 2) Stop)]))))
          (dly (vars0 (Some 1) (world_of [101, 101, 102, 102] [Yield 5 (Yield (- 2) Stop)])))
   \<and> \<not> 101 - beg (vars0 (Some 1) (world_of [101, 101, 102, 102] [Yield 5 (Yield (- 2) Stop)]))
          < dly (vars0 (Some 1) (world_of [101, 101, 102, 102] [Yield 5 (Yield (- 2) Stop)]))
   \<and> loop exact sys0 via0 (cycle kwds0) (Some 100) (params kwds0) (pass_thru kwds0)
        (world_of [101, 102, 102] [Yield 5 (Yield (- 2) Stop)])
      = (Inr (101, 0, [] @ [(Name ''a'', 5)] @ (Name ''b'', - 2) # []),
         [(Info, Started 0 1), (Info, Finished 1 1 1 (Some 1))], world_of [102] [])
   \<and> run_process process0 [(Name ''a'', 5)] (world_of [102] [])
      = (None, (world_of [102] [])\<lparr>processed := [(Name ''a'', 5)]\<rparr>)
   \<and> call process0 (Name ''b'') (- 2) ((world_of [102] [])\<lparr>processed := [(Name ''a'', 5)]\<rparr>)
      = (Some (Failure ''negative''), (world_of [102] [])\<lparr>processed := [(Name ''a'', 5)]\<rparr>)
   \<and> fst (run_pass exact sys0 via0 process0 failure0
            \<lparr>backoff_min = 1, backoff_multiplier = 3 / 2, backoff_max = 10, latency = 1 / 2\<rparr> kwds0
            (vars0 (Some 1) (world_of [101, 101, 102, 102] [Yield 5 (Yield (- 2) Stop)])))
      = Failed (Failure ''negative'')
   \<and> backoff (snd (snd (run_pass exact sys0 via0 process0 failure0
            \<lparr>backoff_min = 1, backoff_multiplier = 3 / 2, backoff_max = 10, latency = 1 / 2\<rparr> kwds0
            (vars0 (Some 1) (world_of [101, 101, 102, 102] [Yield 5 (Yield (- 2) Stop)])))))
      = Some (3 / 2)
   \<and> dly (snd (snd (run_pass exact sys0 via0 process0 failure0
            \<lparr>backoff_min = 1, backoff_multiplier = 3 / 2, backoff_max = 10, latency = 1 / 2\<rparr> kwds0
            (vars0 (Some 1) (world_of [101, 101, 102, 102] [Yield 5 (Yield (- 2) Stop)])))))
      = 3 / 2
   \<and> world (snd (snd (run_pass exact sys0 via0 process0 failure0
            \<lparr>backoff_min = 1, backoff_multiplier = 3 / 2, backoff_max = 10, latency = 1 / 2\<rparr> kwds0
            (vars0 (Some 1) (world_of [101, 101, 102, 102] [Yield 5 (Yield (- 2) Stop)])))))
      = (world_of [] [])\<lparr>processed := [(Name ''a'', 5)], reported := [Failure ''negative'']\<rparr>"
proof -
  let ?w = "world_of [101, 101, 102, 102] [Yield 5 (Yield (- 2) Stop)]"
  let ?b = "\<lparr>backoff_min = 1, backoff_multiplier = 3 / 2, backoff_max = 10, latency = 1 / 2 :: rat\<rparr>"
  let ?w3 = "(world_of [102] [])\<lparr>processed := [(Name ''a'', 5)]\<rparr>"
  have tm: "timer sys0 (world (vars0 (Some 1) ?w))
              = (101, world_of [101, 102, 102] [Yield 5 (Yield (- 2) Stop)])"
    by (simp add: world0_defs)
  have due: "\<not> num_lt exact (num_sub exact 101 (beg (vars0 (Some 1) ?w))) (dly (vars0 (Some 1) ?w))"
    by (simp add: vars0_def exact_def)
  have lp: "loop exact sys0 via0 (cycle kwds0) (Some (lst (vars0 (Some 1) ?w))) (params kwds0)
              (pass_thru kwds0) (world_of [101, 102, 102] [Yield 5 (Yield (- 2) Stop)])
      = (Inr (101, 0, [(Name ''a'', 5)] @ (Name ''b'', - 2) # []),
         [(Info, Started 0 1), (Info, Finished 1 1 1 (Some 1))], world_of [102] [])"
    by (simp add: run_defs world0_defs floor_eq_iff)
  have pre: "run_process process0 [(Name ''a'', 5)] (world_of [102] []) = (None, ?w3)"
    by (simp add: world0_defs)
  have boom: "call process0 (Name ''b'') (- 2) ?w3 = (Some (Failure ''negative''), ?w3)"
    by (simp add: world0_defs)
  obtain q r m' where rp:
    "run_pass exact sys0 via0 process0 failure0 ?b kwds0 (vars0 (Some 1) ?w) = (q, r, m')"
    by (cases "run_pass exact sys0 via0 process0 failure0 ?b kwds0 (vars0 (Some 1) ?w)")
  have wd: "world (snd (snd (run_pass exact sys0 via0 process0 failure0 ?b kwds0
                  (vars0 (Some 1) ?w))))
      = (world_of [] [])\<lparr>processed := [(Name ''a'', 5)], reported := [Failure ''negative'']\<rparr>"
    by (simp add: run_defs world0_defs floor_eq_iff)
  from process_exception_takes_backoff_path [OF tm due lp pre boom rp]
  have "q = Failed (Failure ''negative'') \<and> backoff m' = Some (3 / 2) \<and> dly m' = 3 / 2"
    by (auto simp: vars0_def)
  with rp tm due lp pre boom wd show ?thesis
    by (simp add: vars0_def exact_def)
qed

end
